theory Spec2Isabelle
  imports Main "HOL-Library.Word"
begin

section \<open>JavaScript strings\<close>

text \<open>
  A JavaScript string is a sequence of UTF-16 code units, and \<^verbatim>\<open>s.length\<close> counts them.
  \<^verbatim>\<open>String.prototype.trim\<close> strips the code units that ECMAScript calls WhiteSpace or
  LineTerminator from both ends; all of them lie in the Basic Multilingual Plane, so the
  test is one on single code units.
\<close>

type_synonym js_string = "16 word list"

definition js :: "string \<Rightarrow> js_string" where
  "js s = map of_char s"

definition isWhiteSpace :: "16 word \<Rightarrow> bool" where
  "isWhiteSpace c \<longleftrightarrow>
     c \<in> {0x0009, 0x000A, 0x000B, 0x000C, 0x000D, 0x0020, 0x00A0, 0x1680,
          0x2028, 0x2029, 0x202F, 0x205F, 0x3000, 0xFEFF}
     \<or> (0x2000 \<le> c \<and> c \<le> 0x200A)"

definition trim :: "js_string \<Rightarrow> js_string" where
  "trim s = rev (dropWhile isWhiteSpace (rev (dropWhile isWhiteSpace s)))"

text \<open>
  A property that may be absent (\<^verbatim>\<open>undefined\<close>) is an option. For a string-valued
  property, \<^verbatim>\<open>undefined\<close> and the empty string are the falsy values;
  \<open>or_else a b\<close> is \<^verbatim>\<open>a || b\<close>.
\<close>

definition truthy :: "js_string option \<Rightarrow> bool" where
  "truthy v = (case v of None \<Rightarrow> False | Some s \<Rightarrow> s \<noteq> [])"

definition or_else :: "js_string option \<Rightarrow> js_string option \<Rightarrow> js_string option" where
  "or_else a b = (if truthy a then a else b)"


section \<open>Data model\<close>

text \<open>
  A todo object as the frontend handles it. \<open>mongo_id\<close> is the property \<^verbatim>\<open>_id\<close> the
  document store assigns, \<open>todo_id\<close> the property \<^verbatim>\<open>id\<close>, \<open>todo_text\<close> the property
  \<^verbatim>\<open>text\<close>. Identifiers, texts and timestamps are strings where present; \<open>completed\<close>
  is read for its truth value only, so an absent flag is \<open>False\<close>.
\<close>

record todo =
  mongo_id :: "js_string option"
  todo_id :: "js_string option"
  todo_text :: "js_string option"
  completed :: bool
  createdAt :: "js_string option"
  updatedAt :: "js_string option"

text \<open>The statistics object \<^verbatim>\<open>{ total, completed, pending }\<close>.\<close>

record stats =
  total :: int
  completed_count :: int
  pending :: int

text \<open>The argument \<^verbatim>\<open>updateData\<close> of an update: \<^verbatim>\<open>{ text?, completed? }\<close>.\<close>

record updateData =
  upd_text :: "js_string option"
  upd_completed :: "bool option"

text \<open>
  Thrown values: a \<^verbatim>\<open>TypeError\<close> of the runtime (a method called on a value that
  does not have it), or \<^verbatim>\<open>new Error(message)\<close>.
\<close>

datatype js_error = TypeError | Error string


section \<open>services/localStorage.js\<close>

text \<open>
  The browser's \<^verbatim>\<open>localStorage\<close> maps keys to strings. A stored string is
  represented by what \<^verbatim>\<open>JSON.parse\<close> makes of it: the empty string, a text that is
  not JSON (\<^verbatim>\<open>JSON.parse\<close> throws a SyntaxError), or a JSON text together with the
  value it denotes; \<^verbatim>\<open>JSON.stringify v\<close> is then the text \<open>JSONText v\<close>. A missing key
  (\<^verbatim>\<open>getItem\<close> returns \<^verbatim>\<open>null\<close>) is \<open>None\<close>.

  A JSON value is \<^verbatim>\<open>null\<close>, a boolean, a number, a string, an array of JSON values, or
  an object. An object that carries properties of a todo is \<open>JTodo\<close>, with these
  properties at their declared types; a statistics object is \<open>JStats\<close>; any other
  object is \<open>JObject\<close>.
\<close>

datatype json =
    JNull
  | JBool bool
  | JNumber int
  | JString js_string
  | JArray "json list"
  | JTodo todo
  | JStats stats
  | JObject

datatype item = EmptyString | NotJSON | JSONText json

type_synonym localStorage = "string \<rightharpoonup> item"

definition STORAGE_KEY :: string where
  "STORAGE_KEY = ''todoapp_todos''"

definition STATS_KEY :: string where
  "STATS_KEY = ''todoapp_stats''"

text \<open>
  What the browser does during one call of the hook, beyond holding the stored strings.
  \<open>setItem_ok ls k v\<close> says whether \<^verbatim>\<open>localStorage.setItem(k, JSON.stringify(v))\<close>
  succeeds when the storage holds \<open>ls\<close>; otherwise it throws (the quota is exceeded, or
  the storage is blocked). The clock is read up to three times: \<open>now_update\<close> is the
  reading of \<^verbatim>\<open>updateTodoInStorage\<close>, \<open>now_createdAt\<close> and \<open>now_updatedAt\<close> are the two
  readings of \<^verbatim>\<open>addTodoToStorage\<close>. \<open>local_suffix\<close> is the text
  \<^verbatim>\<open>${Date.now()}_${Math.random().toString(36).substr(2, 9)}\<close>.

  A storage that cannot be accessed at all is the empty storage with \<open>setItem_ok\<close>
  false everywhere: \<^verbatim>\<open>getItem\<close> then throws inside the \<^verbatim>\<open>try\<close> of the reads, which
  return their default as for a missing key.
\<close>

record env =
  setItem_ok :: "localStorage \<Rightarrow> string \<Rightarrow> json \<Rightarrow> bool"
  now_update :: js_string
  now_createdAt :: js_string
  now_updatedAt :: js_string
  local_suffix :: js_string

text \<open>
  \<^verbatim>\<open>const todos = localStorage.getItem(STORAGE_KEY);
  return todos ? JSON.parse(todos) : [];\<close> inside \<^verbatim>\<open>try\<close>, with \<^verbatim>\<open>return []\<close> in the
  \<^verbatim>\<open>catch\<close>.
\<close>

definition getTodosFromStorage :: "localStorage \<Rightarrow> json" where
  "getTodosFromStorage ls =
     (case ls STORAGE_KEY of
        None \<Rightarrow> JArray []
      | Some EmptyString \<Rightarrow> JArray []
      | Some NotJSON \<Rightarrow> JArray []
      | Some (JSONText v) \<Rightarrow> v)"

text \<open>
  \<^verbatim>\<open>try { localStorage.setItem(STORAGE_KEY, JSON.stringify(todos)); } catch (error) { ... }\<close>:
  a write that throws is logged and leaves the storage as it was.
\<close>

definition saveTodosToStorage :: "env \<Rightarrow> localStorage \<Rightarrow> json list \<Rightarrow> localStorage" where
  "saveTodosToStorage e ls xs =
     (if setItem_ok e ls STORAGE_KEY (JArray xs)
      then ls(STORAGE_KEY \<mapsto> JSONText (JArray xs))
      else ls)"

definition noStats :: stats where
  "noStats = \<lparr>total = 0, completed_count = 0, pending = 0\<rparr>"

definition getStatsFromStorage :: "localStorage \<Rightarrow> json" where
  "getStatsFromStorage ls =
     (case ls STATS_KEY of
        None \<Rightarrow> JStats noStats
      | Some EmptyString \<Rightarrow> JStats noStats
      | Some NotJSON \<Rightarrow> JStats noStats
      | Some (JSONText v) \<Rightarrow> v)"

definition saveStatsToStorage :: "env \<Rightarrow> localStorage \<Rightarrow> stats \<Rightarrow> localStorage" where
  "saveStatsToStorage e ls s =
     (if setItem_ok e ls STATS_KEY (JStats s)
      then ls(STATS_KEY \<mapsto> JSONText (JStats s))
      else ls)"

text \<open>
  \<open>calculateStats\<close> on a list of objects, each given by its properties. Only the truth
  value of \<^verbatim>\<open>completed\<close> is read.
\<close>

definition calculateStats :: "todo list \<Rightarrow> stats" where
  "calculateStats ts =
     (let total = int (length ts);
          completed = int (length (filter completed ts));
          pending = total - completed
      in \<lparr>total = total, completed_count = completed, pending = pending\<rparr>)"

text \<open>
  The array methods \<^verbatim>\<open>push\<close>, \<^verbatim>\<open>findIndex\<close>, \<^verbatim>\<open>filter\<close> and \<^verbatim>\<open>map\<close> exist on arrays
  only: on any other value the call throws a \<^verbatim>\<open>TypeError\<close>.
\<close>

definition the_array :: "json \<Rightarrow> js_error + json list" where
  "the_array v = (case v of JArray xs \<Rightarrow> Inr xs | _ \<Rightarrow> Inl TypeError)"

text \<open>
  What a callback sees when it reads \<^verbatim>\<open>_id\<close>, \<^verbatim>\<open>id\<close>, \<^verbatim>\<open>text\<close>, \<^verbatim>\<open>completed\<close>,
  \<^verbatim>\<open>createdAt\<close> or \<^verbatim>\<open>updatedAt\<close> of an element of the array. Reading a property of
  \<^verbatim>\<open>null\<close> throws a \<^verbatim>\<open>TypeError\<close> (\<open>None\<close>). A boolean, a number, a string, a nested
  array and an object of another kind have none of these properties (\<^verbatim>\<open>undefined\<close>);
  of a statistics object, \<^verbatim>\<open>completed\<close> is its count, which is truthy unless zero.
\<close>

definition no_props :: todo where
  "no_props = \<lparr>mongo_id = None, todo_id = None, todo_text = None, completed = False,
               createdAt = None, updatedAt = None\<rparr>"

definition props :: "json \<Rightarrow> todo option" where
  "props v =
     (case v of
        JNull \<Rightarrow> None
      | JTodo t \<Rightarrow> Some t
      | JStats s \<Rightarrow> Some (no_props\<lparr>completed := (completed_count s \<noteq> 0)\<rparr>)
      | _ \<Rightarrow> Some no_props)"

text \<open>
  A callback that reads a property of every element (\<^verbatim>\<open>map\<close>, \<^verbatim>\<open>filter\<close>, and so
  \<open>calculateStats\<close>) throws when the array has a \<^verbatim>\<open>null\<close> element; otherwise it sees the
  properties of each.
\<close>

definition array_props :: "json list \<Rightarrow> js_error + todo list" where
  "array_props xs = (case those (map props xs) of None \<Rightarrow> Inl TypeError | Some ps \<Rightarrow> Inr ps)"

text \<open>
  \<^verbatim>\<open>findIndex\<close> calls its callback on the elements in order and stops at the first for
  which it returns true: a \<^verbatim>\<open>null\<close> element before that one makes it throw.
\<close>

fun findIndex_array :: "(todo \<Rightarrow> bool) \<Rightarrow> json list \<Rightarrow> js_error + nat option" where
  "findIndex_array P [] = Inr None"
| "findIndex_array P (x # xs) =
     (case props x of
        None \<Rightarrow> Inl TypeError
      | Some p \<Rightarrow>
          if P p then Inr (Some 0)
          else (case findIndex_array P xs of
                  Inl err \<Rightarrow> Inl err
                | Inr None \<Rightarrow> Inr None
                | Inr (Some n) \<Rightarrow> Inr (Some (Suc n))))"

text \<open>
  The storage functions below return what they return or throw, together with the
  storage they leave behind: \<open>addTodoToStorage\<close> and \<open>updateTodoInStorage\<close> write the
  list before they call \<open>calculateStats\<close>, which may throw.
\<close>

definition addTodoToStorage ::
  "env \<Rightarrow> localStorage \<Rightarrow> todo \<Rightarrow> (js_error + todo) \<times> localStorage" where
  "addTodoToStorage e ls t =
     (case the_array (getTodosFromStorage ls) of
        Inl err \<Rightarrow> (Inl err, ls)
      | Inr xs \<Rightarrow>
          (let newTodo = t\<lparr>todo_id := or_else (todo_id t) (Some (js ''local_'' @ local_suffix e)),
                           createdAt := or_else (createdAt t) (Some (now_createdAt e)),
                           updatedAt := Some (now_updatedAt e)\<rparr>;
               xs' = xs @ [JTodo newTodo];
               ls1 = saveTodosToStorage e ls xs'
           in case array_props xs' of
                Inl err \<Rightarrow> (Inl err, ls1)
              | Inr ps \<Rightarrow> (Inr newTodo, saveStatsToStorage e ls1 (calculateStats ps))))"

text \<open>\<^verbatim>\<open>{ ...todos[index], ...updateData }\<close>: the properties present in the update win.\<close>

definition spread :: "todo \<Rightarrow> updateData \<Rightarrow> todo" where
  "spread t u =
     t\<lparr>todo_text := (case upd_text u of None \<Rightarrow> todo_text t | Some s \<Rightarrow> Some s),
       completed := (case upd_completed u of None \<Rightarrow> completed t | Some b \<Rightarrow> b)\<rparr>"

text \<open>\<^verbatim>\<open>todo.id === id || todo._id === id\<close>\<close>

definition matches :: "js_string \<Rightarrow> todo \<Rightarrow> bool" where
  "matches i t \<longleftrightarrow> todo_id t = Some i \<or> mongo_id t = Some i"

definition updateTodoInStorage ::
  "env \<Rightarrow> localStorage \<Rightarrow> js_string \<Rightarrow> updateData \<Rightarrow> (js_error + todo) \<times> localStorage" where
  "updateTodoInStorage e ls i u =
     (case the_array (getTodosFromStorage ls) of
        Inl err \<Rightarrow> (Inl err, ls)
      | Inr xs \<Rightarrow>
          (case findIndex_array (matches i) xs of
             Inl err \<Rightarrow> (Inl err, ls)
           | Inr None \<Rightarrow> (Inl (Error ''Todo not found in localStorage''), ls)
           | Inr (Some index) \<Rightarrow>
               (case props (xs ! index) of
                  None \<Rightarrow> (Inl TypeError, ls)
                | Some p \<Rightarrow>
                    (let t' = (spread p u)\<lparr>todo_id := or_else (todo_id p) (mongo_id p),
                                           updatedAt := Some (now_update e)\<rparr>;
                         xs' = xs[index := JTodo t'];
                         ls1 = saveTodosToStorage e ls xs'
                     in case array_props xs' of
                          Inl err \<Rightarrow> (Inl err, ls1)
                        | Inr ps \<Rightarrow> (Inr t', saveStatsToStorage e ls1 (calculateStats ps))))))"

text \<open>
  \<^verbatim>\<open>todos.filter(todo => todo.id !== id && todo._id !== id)\<close>. The callback is called
  on every element, so the \<^verbatim>\<open>filter\<close> throws when the array has a \<^verbatim>\<open>null\<close> element,
  before anything is written; \<open>keeps\<close> is the callback on the other elements.
\<close>

definition keeps :: "js_string \<Rightarrow> json \<Rightarrow> bool" where
  "keeps i x = (case props x of None \<Rightarrow> True | Some p \<Rightarrow> todo_id p \<noteq> Some i \<and> mongo_id p \<noteq> Some i)"

definition deleteTodoFromStorage ::
  "env \<Rightarrow> localStorage \<Rightarrow> js_string \<Rightarrow> (js_error + bool) \<times> localStorage" where
  "deleteTodoFromStorage e ls i =
     (case the_array (getTodosFromStorage ls) of
        Inl err \<Rightarrow> (Inl err, ls)
      | Inr xs \<Rightarrow>
          (case array_props xs of
             Inl err \<Rightarrow> (Inl err, ls)
           | Inr _ \<Rightarrow>
               (let filteredTodos = filter (keeps i) xs
                in if length filteredTodos \<noteq> length xs
                   then
                     (let ls1 = saveTodosToStorage e ls filteredTodos
                      in case array_props filteredTodos of
                           Inl err \<Rightarrow> (Inl err, ls1)
                         | Inr ps \<Rightarrow> (Inr True, saveStatsToStorage e ls1 (calculateStats ps)))
                   else (Inl (Error ''Todo not found in localStorage''), ls))))"

text \<open>The list given to \<open>syncTodosWithStorage\<close> is the one fetched from the remote.\<close>

definition syncTodosWithStorage :: "env \<Rightarrow> localStorage \<Rightarrow> todo list \<Rightarrow> localStorage" where
  "syncTodosWithStorage e ls ts =
     saveStatsToStorage e (saveTodosToStorage e ls (map JTodo ts)) (calculateStats ts)"


section \<open>The backend's controllers for create and update\<close>













section \<open>services/api.js\<close>




text \<open>
  What the methods of \<^verbatim>\<open>todoAPI\<close> do when the hook calls them: each returns the
  property \<^verbatim>\<open>data\<close> of the response body (absent: \<open>None\<close>) or throws.
\<close>

record todoAPI =
  api_getAllTodos :: "js_error + todo list option"
  api_createTodo :: "js_string \<Rightarrow> js_error + todo option"
  api_updateTodo :: "js_string \<Rightarrow> updateData \<Rightarrow> js_error + todo option"
  api_toggleTodoComplete :: "js_string \<Rightarrow> js_error + todo option"
  api_deleteTodo :: "js_string \<Rightarrow> js_error + unit"
  api_deleteCompletedTodos :: "js_error + unit"




section \<open>hooks/useTodos.js\<close>

text \<open>
  The state of the hook. Calls are taken one at a time, each running to its end before the
  next starts, so the \<^verbatim>\<open>prev\<close> of a functional \<^verbatim>\<open>setTodos\<close> is the \<open>todos\<close> the call
  started with. A call works on the hook's state and on the browser's storage.
\<close>

record hook =
  todos :: "todo list"
  stats :: stats
  loading :: bool
  error :: "string option"
  isOnline :: bool

definition initial :: "bool \<Rightarrow> hook" where
  "initial online =
     \<lparr>todos = [], stats = \<lparr>total = 0, completed_count = 0, pending = 0\<rparr>,
      loading = False, error = None, isOnline = online\<rparr>"

text \<open>
  \<^verbatim>\<open>setTodos(prev => { const updated = ...; setStats(calculateStats(updated)); return updated; })\<close>
\<close>

definition setTodos :: "todo list \<Rightarrow> hook \<Rightarrow> hook" where
  "setTodos updated h = h\<lparr>todos := updated, stats := calculateStats updated\<rparr>"

text \<open>
  In \<^verbatim>\<open>loadTodos\<close>: \<^verbatim>\<open>todosData.map(todo => ({ ...todo, id: todo._id || todo.id }))\<close>,
  then \<^verbatim>\<open>.filter(todo => todo.id && todo.id !== 'undefined')\<close>, on the properties of
  the elements.
\<close>

definition todosWithId :: "todo list \<Rightarrow> todo list" where
  "todosWithId todosData = map (\<lambda>t. t\<lparr>todo_id := or_else (mongo_id t) (todo_id t)\<rparr>) todosData"

definition hasValidId :: "todo \<Rightarrow> bool" where
  "hasValidId t \<longleftrightarrow> truthy (todo_id t) \<and> todo_id t \<noteq> Some (js ''undefined'')"

definition validTodos :: "todo list \<Rightarrow> todo list" where
  "validTodos todosData = filter hasValidId (todosWithId todosData)"

text \<open>
  The body shared by the offline branch and the \<^verbatim>\<open>catch\<close> block of \<^verbatim>\<open>loadTodos\<close>:
  read the storage, normalise, set the state. The \<^verbatim>\<open>map\<close> throws when the value read is
  not an array or has a \<^verbatim>\<open>null\<close> element. (\<^verbatim>\<open>statsData\<close> is read and never used.)
\<close>

definition loadFromStorage :: "localStorage \<Rightarrow> hook \<Rightarrow> js_error + hook" where
  "loadFromStorage ls h =
     (case the_array (getTodosFromStorage ls) of
        Inl err \<Rightarrow> Inl err
      | Inr xs \<Rightarrow>
          (case array_props xs of
             Inl err \<Rightarrow> Inl err
           | Inr todosData \<Rightarrow> Inr (setTodos (validTodos todosData) h)))"

text \<open>
  \<^verbatim>\<open>loadTodos\<close>. The first component of the result is the error the call throws to its
  caller, if any: one raised inside the \<^verbatim>\<open>catch\<close> block is not caught again. The
  \<^verbatim>\<open>finally\<close> block runs either way. In the online branch \<^verbatim>\<open>response.data || []\<close>
  is the list fetched, or the empty list when the body has no \<^verbatim>\<open>data\<close>; the value
  \<^verbatim>\<open>statsData\<close> (from \<^verbatim>\<open>calculateStats\<close>, or from \<^verbatim>\<open>getStatsFromAPI\<close>, which catches
  its own errors) is never used.
\<close>

definition loadTodos_try ::
  "env \<Rightarrow> todoAPI \<Rightarrow> hook \<times> localStorage \<Rightarrow> js_error + hook \<times> localStorage" where
  "loadTodos_try e api w =
     (case w of (h, ls) \<Rightarrow>
        if isOnline h then
          (case api_getAllTodos api of
             Inl err \<Rightarrow> Inl err
           | Inr data \<Rightarrow>
               (let todosData = (case data of None \<Rightarrow> [] | Some ts \<Rightarrow> ts)
                in Inr (setTodos (validTodos todosData) h, syncTodosWithStorage e ls todosData)))
        else
          (case loadFromStorage ls h of
             Inl err \<Rightarrow> Inl err
           | Inr h' \<Rightarrow> Inr (h', ls)))"

definition loadTodos ::
  "env \<Rightarrow> todoAPI \<Rightarrow> hook \<times> localStorage \<Rightarrow> js_error option \<times> hook \<times> localStorage" where
  "loadTodos e api w =
     (case w of (h, ls) \<Rightarrow>
        (let h0 = h\<lparr>loading := True, error := None\<rparr>
         in case loadTodos_try e api (h0, ls) of
              Inr (h1, ls1) \<Rightarrow> (None, h1\<lparr>loading := False\<rparr>, ls1)
            | Inl _ \<Rightarrow>
                (case loadFromStorage ls h0 of
                   Inl err \<Rightarrow> (Some err, h0\<lparr>loading := False\<rparr>, ls)
                 | Inr h1 \<Rightarrow>
                     (None,
                      h1\<lparr>error := Some ''Using offline data. Some features may be limited.'',
                         loading := False\<rparr>,
                      ls))))"

text \<open>
  The other callbacks catch everything their \<^verbatim>\<open>try\<close> block throws and put a message
  into \<open>error\<close>. A \<^verbatim>\<open>try\<close> block is modelled by a function that returns the thrown
  error, if any, together with the changes of state and storage made before it was
  thrown.
\<close>

definition catch_setError :: "string \<Rightarrow> js_error option \<times> hook \<times> localStorage \<Rightarrow> hook \<times> localStorage" where
  "catch_setError msg r =
     (case r of
        (None, h, ls) \<Rightarrow> (h, ls)
      | (Some _, h, ls) \<Rightarrow> (h\<lparr>error := Some msg\<rparr>, ls))"

text \<open>\<^verbatim>\<open>if (t._id && !t.id) { t.id = t._id; }\<close>\<close>

definition convertMongoId :: "todo \<Rightarrow> todo" where
  "convertMongoId t = (if truthy (mongo_id t) \<and> \<not> truthy (todo_id t) then t\<lparr>todo_id := mongo_id t\<rparr> else t)"

definition addTodo_try ::
  "env \<Rightarrow> todoAPI \<Rightarrow> js_string \<Rightarrow> hook \<times> localStorage \<Rightarrow> js_error option \<times> hook \<times> localStorage" where
  "addTodo_try e api txt w =
     (case w of (h, ls) \<Rightarrow>
        if isOnline h then
          (case api_createTodo api (trim txt) of
             Inl err \<Rightarrow> (Some err, h, ls)
           | Inr None \<Rightarrow> (Some TypeError, h, ls)
           | Inr (Some data) \<Rightarrow>
               (let newTodo = convertMongoId data
                in if \<not> truthy (todo_id newTodo)
                   then (Some (Error ''Invalid todo response from server''), h, ls)
                   else
                     (let h1 = setTodos (todos h @ [newTodo]) h
                      in case addTodoToStorage e ls newTodo of
                           (Inl err, ls1) \<Rightarrow> (Some err, h1, ls1)
                         | (Inr _, ls1) \<Rightarrow> (None, h1, ls1))))
        else
          (case addTodoToStorage e ls
                  \<lparr>mongo_id = None, todo_id = None, todo_text = Some (trim txt),
                   completed = False, createdAt = None, updatedAt = None\<rparr> of
             (Inl err, ls1) \<Rightarrow> (Some err, h, ls1)
           | (Inr stored, ls1) \<Rightarrow>
               (let newTodo = convertMongoId stored
                in if \<not> truthy (todo_id newTodo)
                   then (Some (Error ''Failed to create todo with valid ID''), h, ls1)
                   else (None, setTodos (todos h @ [newTodo]) h, ls1))))"

definition addTodo :: "env \<Rightarrow> todoAPI \<Rightarrow> js_string \<Rightarrow> hook \<times> localStorage \<Rightarrow> hook \<times> localStorage" where
  "addTodo e api txt w =
     (case w of (h, ls) \<Rightarrow>
        if trim txt = [] then (h\<lparr>error := Some ''Todo text cannot be empty''\<rparr>, ls)
        else catch_setError ''Failed to add todo. Please try again.''
               (addTodo_try e api txt (h\<lparr>error := None\<rparr>, ls)))"

text \<open>\<^verbatim>\<open>prev.map(todo => todo.id === id ? updatedTodo : todo)\<close>\<close>

definition replaceTodo :: "js_string \<Rightarrow> todo \<Rightarrow> todo list \<Rightarrow> todo list" where
  "replaceTodo i updatedTodo prev = map (\<lambda>t. if todo_id t = Some i then updatedTodo else t) prev"

definition updateTodo_try ::
  "env \<Rightarrow> todoAPI \<Rightarrow> js_string \<Rightarrow> updateData \<Rightarrow> hook \<times> localStorage
     \<Rightarrow> js_error option \<times> hook \<times> localStorage" where
  "updateTodo_try e api i u w =
     (case w of (h, ls) \<Rightarrow>
        if isOnline h then
          (case api_updateTodo api i u of
             Inl err \<Rightarrow> (Some err, h, ls)
           | Inr None \<Rightarrow> (Some TypeError, h, ls)
           | Inr (Some data) \<Rightarrow>
               (let updatedTodo = convertMongoId data;
                    h1 = setTodos (replaceTodo i updatedTodo (todos h)) h
                in case updateTodoInStorage e ls i u of
                     (Inr _, ls1) \<Rightarrow> (None, h1, ls1)
                   | (Inl _, ls1) \<Rightarrow>
                       (case addTodoToStorage e ls1 updatedTodo of
                          (Inl err, ls2) \<Rightarrow> (Some err, h1, ls2)
                        | (Inr _, ls2) \<Rightarrow> (None, h1, ls2))))
        else
          (case updateTodoInStorage e ls i u of
             (Inl err, ls1) \<Rightarrow> (Some err, h, ls1)
           | (Inr updatedTodo, ls1) \<Rightarrow>
               (None, setTodos (replaceTodo i updatedTodo (todos h)) h, ls1)))"

definition updateTodo ::
  "env \<Rightarrow> todoAPI \<Rightarrow> js_string \<Rightarrow> updateData \<Rightarrow> hook \<times> localStorage \<Rightarrow> hook \<times> localStorage" where
  "updateTodo e api i u w =
     (case w of (h, ls) \<Rightarrow>
        catch_setError ''Failed to update todo. Please try again.''
          (updateTodo_try e api i u (h\<lparr>error := None\<rparr>, ls)))"

text \<open>\<^verbatim>\<open>{ completed: !todo.completed }\<close>\<close>

definition flipped :: "todo \<Rightarrow> updateData" where
  "flipped t = \<lparr>upd_text = None, upd_completed = Some (\<not> completed t)\<rparr>"

definition toggleTodoComplete_try ::
  "env \<Rightarrow> todoAPI \<Rightarrow> js_string \<Rightarrow> hook \<times> localStorage \<Rightarrow> js_error option \<times> hook \<times> localStorage" where
  "toggleTodoComplete_try e api i w =
     (case w of (h, ls) \<Rightarrow>
        if isOnline h then
          (case api_toggleTodoComplete api i of
             Inl err \<Rightarrow> (Some err, h, ls)
           | Inr None \<Rightarrow> (Some TypeError, h, ls)
           | Inr (Some data) \<Rightarrow>
               (let updatedTodo = convertMongoId data;
                    h1 = setTodos (replaceTodo i updatedTodo (todos h)) h
                in case find (\<lambda>t. todo_id t = Some i) (todos h) of
                     None \<Rightarrow> (None, h1, ls)
                   | Some t \<Rightarrow>
                       (case updateTodoInStorage e ls i (flipped t) of
                          (Inr _, ls1) \<Rightarrow> (None, h1, ls1)
                        | (Inl _, ls1) \<Rightarrow>
                            (case addTodoToStorage e ls1 updatedTodo of
                               (Inl err, ls2) \<Rightarrow> (Some err, h1, ls2)
                             | (Inr _, ls2) \<Rightarrow> (None, h1, ls2)))))
        else
          (case find (\<lambda>t. todo_id t = Some i) (todos h) of
             None \<Rightarrow> (None, h, ls)
           | Some t \<Rightarrow>
               (case updateTodoInStorage e ls i (flipped t) of
                  (Inl err, ls1) \<Rightarrow> (Some err, h, ls1)
                | (Inr updatedTodo, ls1) \<Rightarrow>
                    (None, setTodos (replaceTodo i updatedTodo (todos h)) h, ls1))))"

definition toggleTodoComplete ::
  "env \<Rightarrow> todoAPI \<Rightarrow> js_string \<Rightarrow> hook \<times> localStorage \<Rightarrow> hook \<times> localStorage" where
  "toggleTodoComplete e api i w =
     (case w of (h, ls) \<Rightarrow>
        catch_setError ''Failed to toggle todo. Please try again.''
          (toggleTodoComplete_try e api i (h\<lparr>error := None\<rparr>, ls)))"

definition deleteTodo_try ::
  "env \<Rightarrow> todoAPI \<Rightarrow> js_string \<Rightarrow> hook \<times> localStorage \<Rightarrow> js_error option \<times> hook \<times> localStorage" where
  "deleteTodo_try e api i w =
     (case w of (h, ls) \<Rightarrow>
        if isOnline h then
          (case api_deleteTodo api i of
             Inl err \<Rightarrow> (Some err, h, ls)
           | Inr _ \<Rightarrow>
               (let h1 = setTodos (filter (\<lambda>t. todo_id t \<noteq> Some i) (todos h)) h
                in case deleteTodoFromStorage e ls i of (_, ls1) \<Rightarrow> (None, h1, ls1)))
        else
          (case deleteTodoFromStorage e ls i of
             (Inl err, ls1) \<Rightarrow> (Some err, h, ls1)
           | (Inr _, ls1) \<Rightarrow>
               (None, setTodos (filter (\<lambda>t. todo_id t \<noteq> Some i) (todos h)) h, ls1)))"

definition deleteTodo ::
  "env \<Rightarrow> todoAPI \<Rightarrow> js_string \<Rightarrow> hook \<times> localStorage \<Rightarrow> hook \<times> localStorage" where
  "deleteTodo e api i w =
     (case w of (h, ls) \<Rightarrow>
        catch_setError ''Failed to delete todo. Please try again.''
          (deleteTodo_try e api i (h\<lparr>error := None\<rparr>, ls)))"

definition deleteCompletedTodos_try ::
  "env \<Rightarrow> todoAPI \<Rightarrow> hook \<times> localStorage \<Rightarrow> js_error option \<times> hook \<times> localStorage" where
  "deleteCompletedTodos_try e api w =
     (case w of (h, ls) \<Rightarrow>
        if isOnline h then
          (case api_deleteCompletedTodos api of
             Inl err \<Rightarrow> (Some err, h, ls)
           | Inr _ \<Rightarrow>
               (let h1 = setTodos (filter (\<lambda>t. \<not> completed t) (todos h)) h;
                    remainingTodos = filter (\<lambda>t. \<not> completed t) (todos h);
                    ls1 = saveTodosToStorage e ls (map JTodo remainingTodos);
                    newStats = calculateStats remainingTodos
                in (None, h1, saveStatsToStorage e ls1 newStats)))
        else
          (let remainingTodos = filter (\<lambda>t. \<not> completed t) (todos h);
               ls1 = saveTodosToStorage e ls (map JTodo remainingTodos);
               newStats = calculateStats remainingTodos;
               ls2 = saveStatsToStorage e ls1 newStats
           in (None, h\<lparr>todos := remainingTodos, stats := newStats\<rparr>, ls2)))"

definition deleteCompletedTodos ::
  "env \<Rightarrow> todoAPI \<Rightarrow> hook \<times> localStorage \<Rightarrow> hook \<times> localStorage" where
  "deleteCompletedTodos e api w =
     (case w of (h, ls) \<Rightarrow>
        catch_setError ''Failed to delete completed todos. Please try again.''
          (deleteCompletedTodos_try e api (h\<lparr>error := None\<rparr>, ls)))"

definition clearError :: "hook \<times> localStorage \<Rightarrow> hook \<times> localStorage" where
  "clearError w = (case w of (h, ls) \<Rightarrow> (h\<lparr>error := None\<rparr>, ls))"

text \<open>The handlers of the window's \<^verbatim>\<open>online\<close> and \<^verbatim>\<open>offline\<close> events.\<close>

definition setIsOnline :: "bool \<Rightarrow> hook \<times> localStorage \<Rightarrow> hook \<times> localStorage" where
  "setIsOnline b w = (case w of (h, ls) \<Rightarrow> (h\<lparr>isOnline := b\<rparr>, ls))"

text \<open>
  A session is a sequence of calls and connectivity events; each call comes with what the
  remote and the browser do during it.
\<close>

datatype call =
    Load env todoAPI
  | Add env todoAPI js_string
  | Update env todoAPI js_string updateData
  | ToggleComplete env todoAPI js_string
  | Remove env todoAPI js_string
  | RemoveCompleted env todoAPI
  | ClearError
  | SetOnline bool

fun step :: "hook \<times> localStorage \<Rightarrow> call \<Rightarrow> hook \<times> localStorage" where
  "step w (Load e api) = snd (loadTodos e api w)"
| "step w (Add e api txt) = addTodo e api txt w"
| "step w (Update e api i u) = updateTodo e api i u w"
| "step w (ToggleComplete e api i) = toggleTodoComplete e api i w"
| "step w (Remove e api i) = deleteTodo e api i w"
| "step w (RemoveCompleted e api) = deleteCompletedTodos e api w"
| "step w ClearError = clearError w"
| "step w (SetOnline b) = setIsOnline b w"

definition run :: "hook \<times> localStorage \<Rightarrow> call list \<Rightarrow> hook \<times> localStorage" where
  "run w calls = foldl step w calls"


section \<open>Consistency of the statistics\<close>

text \<open>
  The statistics agree with the list: they are the recomputation over the current list,
  and the three counts add up.
\<close>

definition consistent :: "hook \<Rightarrow> bool" where
  "consistent h \<longleftrightarrow>
     stats h = calculateStats (todos h) \<and>
     total (stats h) = completed_count (stats h) + pending (stats h)"


section \<open>Example inputs\<close>

text \<open>
  A remote that cannot be reached (every method of \<^verbatim>\<open>todoAPI\<close> throws the network
  error), a remote that answers the list request with a given list, and the remote that
  serves create and update through a given backend.
\<close>

definition unreachableAPI :: todoAPI where
  "unreachableAPI =
     \<lparr>api_getAllTodos = Inl (Error ''Network Error: Unable to connect to server''),
      api_createTodo = (\<lambda>_. Inl (Error ''Network Error: Unable to connect to server'')),
      api_updateTodo = (\<lambda>_ _. Inl (Error ''Network Error: Unable to connect to server'')),
      api_toggleTodoComplete = (\<lambda>_. Inl (Error ''Network Error: Unable to connect to server'')),
      api_deleteTodo = (\<lambda>_. Inl (Error ''Network Error: Unable to connect to server'')),
      api_deleteCompletedTodos = Inl (Error ''Network Error: Unable to connect to server'')\<rparr>"



text \<open>
  A browser whose writes succeed and one whose writes all fail, with three readings of
  the clock.
\<close>

definition env0 :: env where
  "env0 =
     \<lparr>setItem_ok = (\<lambda>_ _ _. True),
      now_update = js ''2024-01-01T00:00:02.000Z'',
      now_createdAt = js ''2024-01-01T00:00:00.000Z'',
      now_updatedAt = js ''2024-01-01T00:00:00.001Z'',
      local_suffix = js ''1704067200000_k3j9x2m1q''\<rparr>"

definition env_full :: env where
  "env_full = env0\<lparr>setItem_ok := (\<lambda>_ _ _. False)\<rparr>"

text \<open>
  Todo objects, and a backend whose store saves every document it is given; it routes an
  update to the controller unless the identifier is empty, where no route matches.
\<close>

definition mk_todo :: "js_string option \<Rightarrow> js_string option \<Rightarrow> js_string \<Rightarrow> bool \<Rightarrow> todo" where
  "mk_todo oid i t c =
     \<lparr>mongo_id = oid, todo_id = i, todo_text = Some t, completed = c,
      createdAt = None, updatedAt = None\<rparr>"



definition cache_ex :: "json list" where
  "cache_ex =
     [JTodo (mk_todo (Some (js ''m1'')) None (js ''milk'') False),
      JTodo (mk_todo None (Some (js ''undefined'')) (js ''ghost'') True),
      JNumber 5,
      JTodo (mk_todo None None (js ''nameless'') False)]"



section \<open>Trimming\<close>

lemma dropWhile_hd_id: "xs \<noteq> [] \<Longrightarrow> \<not> P (hd xs) \<Longrightarrow> dropWhile P xs = xs"
  by (cases xs) simp_all

lemma last_dropWhile_keep: "dropWhile P xs \<noteq> [] \<Longrightarrow> last (dropWhile P xs) = last xs"
proof -
  assume a: "dropWhile P xs \<noteq> []"
  have "xs = takeWhile P xs @ dropWhile P xs" by simp
  then have "last xs = last (takeWhile P xs @ dropWhile P xs)" by simp
  also have "\<dots> = last (dropWhile P xs)" using a by (rule last_appendR)
  finally show ?thesis by simp
qed

lemma trim_id: "s \<noteq> [] \<Longrightarrow> \<not> isWhiteSpace (hd s) \<Longrightarrow> \<not> isWhiteSpace (last s) \<Longrightarrow> trim s = s"
  by (simp add: trim_def dropWhile_hd_id hd_rev)

lemma trim_edges:
  assumes "trim s \<noteq> []"
  shows "\<not> isWhiteSpace (hd (trim s))" "\<not> isWhiteSpace (last (trim s))"
proof -
  let ?a = "dropWhile isWhiteSpace s"
  let ?b = "dropWhile isWhiteSpace (rev ?a)"
  from assms have b: "?b \<noteq> []" by (simp add: trim_def)
  have a: "?a \<noteq> []"
  proof
    assume "?a = []"
    with b show False by simp
  qed
  have "\<not> isWhiteSpace (hd ?b)" using b by (rule hd_dropWhile)
  then show "\<not> isWhiteSpace (last (trim s))" using b by (simp add: trim_def last_rev)
  have "last ?b = last (rev ?a)" using b by (rule last_dropWhile_keep)
  also have "\<dots> = hd ?a" using a by (simp add: last_rev)
  finally have "last ?b = hd ?a" .
  moreover have "\<not> isWhiteSpace (hd ?a)" using a by (rule hd_dropWhile)
  ultimately show "\<not> isWhiteSpace (hd (trim s))" using b by (simp add: trim_def hd_rev)
qed

lemma trim_trim [simp]: "trim (trim s) = trim s"
proof (cases "trim s = []")
  case True
  have "trim [] = []" by (simp add: trim_def)
  with True show ?thesis by simp
next
  case False
  then show ?thesis by (simp add: trim_id trim_edges)
qed


section \<open>Storage lemmas\<close>

lemma keys_distinct [simp]: "STORAGE_KEY \<noteq> STATS_KEY" "STATS_KEY \<noteq> STORAGE_KEY"
  by (simp_all add: STORAGE_KEY_def STATS_KEY_def)


lemma getTodos_saveStats [simp]:
  "getTodosFromStorage (saveStatsToStorage e ls s) = getTodosFromStorage ls"
  by (simp add: getTodosFromStorage_def saveStatsToStorage_def)

lemma getTodos_empty [simp]: "getTodosFromStorage Map.empty = JArray []"
  by (simp add: getTodosFromStorage_def)

lemma the_array_JArray [simp]: "the_array (JArray xs) = Inr xs"
  by (simp add: the_array_def)

lemma getTodosFromStorage_default:
  "ls STORAGE_KEY = None \<or> ls STORAGE_KEY = Some EmptyString \<or> ls STORAGE_KEY = Some NotJSON
     \<Longrightarrow> getTodosFromStorage ls = JArray []"
  by (auto simp: getTodosFromStorage_def)

lemma getStatsFromStorage_default:
  "ls STATS_KEY = None \<or> ls STATS_KEY = Some EmptyString \<or> ls STATS_KEY = Some NotJSON
     \<Longrightarrow> getStatsFromStorage ls = JStats \<lparr>total = 0, completed_count = 0, pending = 0\<rparr>"
  by (auto simp: getStatsFromStorage_def noStats_def)

text \<open>Arrays without a null element.\<close>

lemma props_None_iff: "props x = None \<longleftrightarrow> x = JNull"
  by (cases x) (simp_all add: props_def)

lemma props_JTodo [simp]: "props (JTodo t) = Some t"
  by (simp add: props_def)

lemma those_Some_iff: "those xs = Some ys \<longleftrightarrow> xs = map Some ys"
proof (induction xs arbitrary: ys)
  case Nil
  then show ?case by auto
next
  case (Cons x xs)
  then show ?case by (cases x; cases ys) auto
qed

lemma those_map_Some [simp]: "those (map Some ys) = Some ys"
  by (simp add: those_Some_iff)

lemma array_props_Inr_iff: "array_props xs = Inr ps \<longleftrightarrow> map props xs = map Some ps"
proof
  assume "array_props xs = Inr ps"
  then show "map props xs = map Some ps"
    by (auto simp: array_props_def those_Some_iff split: option.splits)
next
  assume "map props xs = map Some ps"
  then show "array_props xs = Inr ps" by (simp add: array_props_def)
qed

lemma array_props_Nil [simp]: "array_props [] = Inr []"
  by (simp add: array_props_def)

lemma array_props_no_null: "JNull \<notin> set xs \<longleftrightarrow> (\<exists>ps. array_props xs = Inr ps)"
proof (induction xs)
  case Nil
  then show ?case by simp
next
  case (Cons x xs)
  show ?case
  proof (cases "props x")
    case None
    then have "x = JNull" by (simp add: props_None_iff)
    with None show ?thesis by (auto simp: array_props_Inr_iff Cons_eq_map_conv)
  next
    case (Some p)
    then have "x \<noteq> JNull" using props_None_iff [of x] by auto
    with Some Cons show ?thesis
      by (auto simp: array_props_Inr_iff Cons_eq_map_conv)
  qed
qed





lemma array_props_map_JTodo [simp]: "array_props (map JTodo ts) = Inr ts"
  by (simp add: array_props_Inr_iff comp_def)

lemma array_props_filter:
  "array_props xs = Inr ps \<Longrightarrow> \<exists>qs. array_props (filter Q xs) = Inr qs"
proof -
  assume "array_props xs = Inr ps"
  then have "JNull \<notin> set xs" using array_props_no_null by blast
  then have "JNull \<notin> set (filter Q xs)" by simp
  then show ?thesis using array_props_no_null by blast
qed



text \<open>
  Over an array with no \<^verbatim>\<open>null\<close> element, \<^verbatim>\<open>findIndex\<close> returns the index of the first
  element that satisfies the test, and it finds one whenever some element satisfies it.
\<close>

lemma findIndex_array_first:
  "array_props xs = Inr ps \<Longrightarrow>
     findIndex_array P xs = Inr (Some k)
       \<longleftrightarrow> k < length ps \<and> P (ps ! k) \<and> (\<forall>j < k. \<not> P (ps ! j))"
proof (induction xs arbitrary: ps k)
  case Nil
  then show ?case by (simp add: array_props_Inr_iff)
next
  case (Cons x xs)
  from Cons.prems obtain p qs where ps: "ps = p # qs" and p: "props x = Some p"
    and qs: "array_props xs = Inr qs"
    by (auto simp: array_props_Inr_iff Cons_eq_map_conv)
  show ?case
  proof (cases "P p")
    case True
    then have "findIndex_array P (x # xs) = Inr (Some k) \<longleftrightarrow> k = 0" using p by auto
    moreover have "k < length ps \<and> P (ps ! k) \<and> (\<forall>j < k. \<not> P (ps ! j)) \<longleftrightarrow> k = 0"
      using True ps by (cases k) auto
    ultimately show ?thesis by simp
  next
    case False
    show ?thesis
    proof (cases k)
      case 0
      with False p ps show ?thesis
        by (auto split: sum.splits option.splits)
    next
      case (Suc n)
      have "findIndex_array P (x # xs) = Inr (Some (Suc n))
              \<longleftrightarrow> findIndex_array P xs = Inr (Some n)"
        using False p by (auto split: sum.splits option.splits)
      also have "\<dots> \<longleftrightarrow> n < length qs \<and> P (qs ! n) \<and> (\<forall>j < n. \<not> P (qs ! j))"
        by (rule Cons.IH [OF qs])
      also have "\<dots> \<longleftrightarrow> Suc n < length ps \<and> P (ps ! Suc n) \<and> (\<forall>j < Suc n. \<not> P (ps ! j))"
        using False ps by (auto simp: less_Suc_eq_0_disj)
      finally show ?thesis using Suc by simp
    qed
  qed
qed

lemma findIndex_array_match:
  assumes "array_props xs = Inr ps" "\<exists>p \<in> set ps. P p"
  shows "\<exists>k. findIndex_array P xs = Inr (Some k)"
proof (cases "findIndex_array P xs")
  case (Inl err)
  from assms(1) have "JNull \<notin> set xs" using array_props_no_null by blast
  with Inl show ?thesis
    by (induction xs) (auto simp: props_None_iff split: option.splits sum.splits if_splits)
next
  case (Inr r)
  show ?thesis
  proof (cases r)
    case None
    with Inr assms show ?thesis
      by (induction xs arbitrary: ps)
         (auto simp: array_props_Inr_iff Cons_eq_map_conv split: option.splits sum.splits if_splits)
  next
    case (Some k)
    with Inr show ?thesis by simp
  qed
qed


section \<open>Facts about the example inputs\<close>

lemma initial_facts [simp]:
  "isOnline (initial b) = b" "todos (initial b) = []" "error (initial b) = None"
  by (simp_all add: initial_def)

lemma env0_facts [simp]:
  "setItem_ok env0 ls k v" "\<not> setItem_ok env_full ls k v"
  by (simp_all add: env0_def env_full_def)




section \<open>The statistics follow the list\<close>

lemma consistent_setTodos [simp]: "consistent (setTodos ts h)"
  by (simp add: consistent_def setTodos_def calculateStats_def Let_def)

lemma consistent_error [simp]: "consistent (h\<lparr>error := x\<rparr>) = consistent h"
  by (simp add: consistent_def)

lemma consistent_loading [simp]: "consistent (h\<lparr>loading := x\<rparr>) = consistent h"
  by (simp add: consistent_def)

lemma consistent_isOnline [simp]: "consistent (h\<lparr>isOnline := x\<rparr>) = consistent h"
  by (simp add: consistent_def)

lemma consistent_initial [simp]: "consistent (initial b)"
  by (simp add: consistent_def initial_def calculateStats_def)

lemma consistent_catch:
  "consistent (fst (snd r)) \<Longrightarrow> consistent (fst (catch_setError msg r))"
  by (auto simp: catch_setError_def split: prod.splits option.splits)

lemma consistent_loadFromStorage:
  "loadFromStorage ls h = Inr h' \<Longrightarrow> consistent h'"
  by (auto simp: loadFromStorage_def split: sum.splits)

lemma consistent_loadTodos:
  "consistent h \<Longrightarrow> consistent (fst (snd (loadTodos e api (h, ls))))"
  by (auto simp: loadTodos_def loadTodos_try_def Let_def
           dest: consistent_loadFromStorage split: sum.splits option.splits if_splits)

lemma consistent_addTodo_try:
  "consistent h \<Longrightarrow> consistent (fst (snd (addTodo_try e api t (h, ls))))"
  by (auto simp: addTodo_try_def Let_def split: sum.splits option.splits prod.splits)

lemma consistent_updateTodo_try:
  "consistent h \<Longrightarrow> consistent (fst (snd (updateTodo_try e api i u (h, ls))))"
  by (auto simp: updateTodo_try_def Let_def split: sum.splits option.splits prod.splits)

lemma consistent_toggleTodoComplete_try:
  "consistent h \<Longrightarrow> consistent (fst (snd (toggleTodoComplete_try e api i (h, ls))))"
  by (auto simp: toggleTodoComplete_try_def Let_def split: sum.splits option.splits prod.splits)

lemma consistent_deleteTodo_try:
  "consistent h \<Longrightarrow> consistent (fst (snd (deleteTodo_try e api i (h, ls))))"
  by (auto simp: deleteTodo_try_def Let_def split: sum.splits option.splits prod.splits)

lemma consistent_deleteCompletedTodos_try:
  "consistent h \<Longrightarrow> consistent (fst (snd (deleteCompletedTodos_try e api (h, ls))))"
  by (auto simp: deleteCompletedTodos_try_def Let_def consistent_def calculateStats_def
        setTodos_def split: sum.splits option.splits)

lemma consistent_step: "consistent (fst w) \<Longrightarrow> consistent (fst (step w c))"
proof (cases w)
  case (Pair h ls)
  assume "consistent (fst w)"
  with Pair have h: "consistent h" by simp
  show ?thesis
  proof (cases c)
    case (Load e api)
    with Pair h show ?thesis using consistent_loadTodos [of h e api ls] by simp
  next
    case (Add e api t)
    with Pair h show ?thesis
      using consistent_addTodo_try [of "h\<lparr>error := None\<rparr>" e api t ls]
      by (simp add: addTodo_def consistent_catch)
  next
    case (Update e api i u)
    with Pair h show ?thesis
      using consistent_updateTodo_try [of "h\<lparr>error := None\<rparr>" e api i u ls]
      by (simp add: updateTodo_def consistent_catch)
  next
    case (ToggleComplete e api i)
    with Pair h show ?thesis
      using consistent_toggleTodoComplete_try [of "h\<lparr>error := None\<rparr>" e api i ls]
      by (simp add: toggleTodoComplete_def consistent_catch)
  next
    case (Remove e api i)
    with Pair h show ?thesis
      using consistent_deleteTodo_try [of "h\<lparr>error := None\<rparr>" e api i ls]
      by (simp add: deleteTodo_def consistent_catch)
  next
    case (RemoveCompleted e api)
    with Pair h show ?thesis
      using consistent_deleteCompletedTodos_try [of "h\<lparr>error := None\<rparr>" e api ls]
      by (simp add: deleteCompletedTodos_def consistent_catch)
  next
    case ClearError
    with Pair h show ?thesis by (simp add: clearError_def)
  next
    case (SetOnline b)
    with Pair h show ?thesis by (simp add: setIsOnline_def)
  qed
qed

lemma consistent_foldl: "consistent (fst w) \<Longrightarrow> consistent (fst (foldl step w calls))"
  by (induction calls arbitrary: w) (simp_all add: consistent_step)

text \<open>
  Claim C1. Start the hook in either connectivity mode, over any storage, and make any
  sequence of calls (load, add, update, toggle, remove, remove completed, with clearing
  the error and connectivity changes in between), whatever the remote answers and
  whatever the browser does at each. In the state reached, the statistics are
  \<open>calculateStats\<close> of the current list of todos, and \<open>total = completed + pending\<close>.
\<close>

theorem stats_consistent_after_every_call:
  "stats (fst (run (initial online, ls) calls))
     = calculateStats (todos (fst (run (initial online, ls) calls)))
   \<and> total (stats (fst (run (initial online, ls) calls)))
     = completed_count (stats (fst (run (initial online, ls) calls)))
       + pending (stats (fst (run (initial online, ls) calls)))"
proof -
  have "consistent (fst (run (initial online, ls) calls))"
    by (simp add: run_def consistent_foldl)
  then show ?thesis unfolding consistent_def .
qed


section \<open>Reading the storage\<close>

text \<open>
  Claim C10. The reads of the storage never throw, but they return whatever JSON value
  the stored text denotes: with the text \<^verbatim>\<open>null\<close> under either key,
  \<open>getTodosFromStorage\<close> returns \<^verbatim>\<open>null\<close>, which is not a list, and
  \<open>getStatsFromStorage\<close> returns \<^verbatim>\<open>null\<close>, which is not a statistics object.
\<close>

theorem storage_reads_return_null:
  "getTodosFromStorage [STORAGE_KEY \<mapsto> JSONText JNull] = JNull \<and>
   getStatsFromStorage [STATS_KEY \<mapsto> JSONText JNull] = JNull"
  by (simp add: getTodosFromStorage_def getStatsFromStorage_def)

text \<open>
  With such a text under the todos key, \<open>loadTodos\<close> throws to its caller: the
  \<^verbatim>\<open>catch\<close> block calls \<^verbatim>\<open>map\<close> on the value again. The same happens with an array
  that has a \<^verbatim>\<open>null\<close> element.
\<close>

lemma loadTodos_throws_on_null:
  "loadTodos env0 unreachableAPI (initial False, [STORAGE_KEY \<mapsto> JSONText JNull])
     = (Some TypeError, initial False, [STORAGE_KEY \<mapsto> JSONText JNull])"
  by (simp add: loadTodos_def loadTodos_try_def loadFromStorage_def getTodosFromStorage_def
        the_array_def initial_def)

lemma loadTodos_throws_on_null_element:
  "loadTodos env0 unreachableAPI (initial False, [STORAGE_KEY \<mapsto> JSONText (JArray [JNull])])
     = (Some TypeError, initial False, [STORAGE_KEY \<mapsto> JSONText (JArray [JNull])])"
  by (simp add: loadTodos_def loadTodos_try_def loadFromStorage_def getTodosFromStorage_def
        array_props_def props_def initial_def)


section \<open>Loading\<close>

lemma hasValidId_validTodos: "t \<in> set (validTodos ts) \<Longrightarrow> hasValidId t"
  by (simp add: validTodos_def)

lemma array_props_cache_ex:
  "array_props cache_ex =
     Inr [mk_todo (Some (js ''m1'')) None (js ''milk'') False,
          mk_todo None (Some (js ''undefined'')) (js ''ghost'') True,
          no_props,
          mk_todo None None (js ''nameless'') False]"
  by (simp add: array_props_def props_def cache_ex_def)

lemma validTodos_cache_ex:
  "validTodos [mk_todo (Some (js ''m1'')) None (js ''milk'') False,
          mk_todo None (Some (js ''undefined'')) (js ''ghost'') True,
          no_props,
          mk_todo None None (js ''nameless'') False]
     = [mk_todo (Some (js ''m1'')) (Some (js ''m1'')) (js ''milk'') False]"
  by (simp add: validTodos_def todosWithId_def hasValidId_def mk_todo_def no_props_def
        or_else_def truthy_def js_def)

lemma loadTodos_offline_list:
  assumes "getTodosFromStorage ls = JArray xs" "array_props xs = Inr cached" "\<not> isOnline h"
  shows "loadTodos e api (h, ls) =
           (None, h\<lparr>todos := validTodos cached, stats := calculateStats (validTodos cached),
                    loading := False, error := None\<rparr>, ls)"
  using assms
  by (simp add: loadTodos_def loadTodos_try_def loadFromStorage_def setTodos_def)

lemma loadTodos_fetch_fails_list:
  assumes "getTodosFromStorage ls = JArray xs" "array_props xs = Inr cached"
    "isOnline h" "api_getAllTodos api = Inl err"
  shows "loadTodos e api (h, ls) =
           (None, h\<lparr>todos := validTodos cached, stats := calculateStats (validTodos cached),
                    loading := False,
                    error := Some ''Using offline data. Some features may be limited.''\<rparr>, ls)"
  using assms
  by (simp add: loadTodos_def loadTodos_try_def loadFromStorage_def setTodos_def)

lemma loadTodos_online_success:
  assumes "isOnline h" "api_getAllTodos api = Inr d"
  shows "loadTodos e api (h, ls) =
           (None, h\<lparr>todos := validTodos (case d of None \<Rightarrow> [] | Some ts \<Rightarrow> ts),
                    stats := calculateStats (validTodos (case d of None \<Rightarrow> [] | Some ts \<Rightarrow> ts)),
                    loading := False, error := None\<rparr>,
            syncTodosWithStorage e ls (case d of None \<Rightarrow> [] | Some ts \<Rightarrow> ts))"
  using assms
  by (simp add: loadTodos_def loadTodos_try_def loadFromStorage_def setTodos_def Let_def)

text \<open>
  Claim C2. When \<open>loadTodos\<close> returns (it does not throw), every todo of the list has
  an \<^verbatim>\<open>id\<close> that is truthy and is not the string \<^verbatim>\<open>undefined\<close>, and the statistics are
  \<open>calculateStats\<close> of the list. The list is \<open>validTodos\<close> of the data read: each
  entry gets \<^verbatim>\<open>_id || id\<close> as its \<^verbatim>\<open>id\<close>, and the entries left without an
  identifier are dropped. The data is the remote's answer in the online branch, the
  elements of the stored array when offline or when the fetch failed.
\<close>

theorem loadTodos_valid_ids:
  assumes "loadTodos e api (h, ls) = (None, h', ls')"
  shows "(\<forall>t \<in> set (todos h'). truthy (todo_id t) \<and> todo_id t \<noteq> Some (js ''undefined''))
       \<and> stats h' = calculateStats (todos h')
       \<and> (\<exists>todosData. todos h' = validTodos todosData \<and>
             ((isOnline h \<and> (\<exists>d. api_getAllTodos api = Inr d \<and>
                                 todosData = (case d of None \<Rightarrow> [] | Some ts \<Rightarrow> ts)))
              \<or> ((\<not> isOnline h \<or> (\<exists>err. api_getAllTodos api = Inl err)) \<and>
                  (\<exists>xs. getTodosFromStorage ls = JArray xs \<and> array_props xs = Inr todosData))))"
proof -
  from assms obtain todosData where
    td: "todos h' = validTodos todosData" "stats h' = calculateStats (validTodos todosData)"
      "(isOnline h \<and> (\<exists>d. api_getAllTodos api = Inr d \<and>
                                 todosData = (case d of None \<Rightarrow> [] | Some ts \<Rightarrow> ts)))
              \<or> ((\<not> isOnline h \<or> (\<exists>err. api_getAllTodos api = Inl err)) \<and>
                  (\<exists>xs. getTodosFromStorage ls = JArray xs \<and> array_props xs = Inr todosData))"
    by (auto simp: loadTodos_def loadTodos_try_def loadFromStorage_def the_array_def setTodos_def
          Let_def split: sum.splits option.splits if_splits json.splits)
  have "\<forall>t \<in> set (todos h'). hasValidId t"
    using td(1) by (simp add: hasValidId_validTodos)
  then have "\<forall>t \<in> set (todos h'). truthy (todo_id t) \<and> todo_id t \<noteq> Some (js ''undefined'')"
    by (simp add: hasValidId_def)
  with td show ?thesis by auto
qed

theorem loadTodos_valid_ids_witness:
  "loadTodos env0 unreachableAPI (initial False, [STORAGE_KEY \<mapsto> JSONText (JArray cache_ex)])
     = (None,
        (initial False)\<lparr>todos := [mk_todo (Some (js ''m1'')) (Some (js ''m1'')) (js ''milk'') False],
                          stats := \<lparr>total = 1, completed_count = 0, pending = 1\<rparr>\<rparr>,
        [STORAGE_KEY \<mapsto> JSONText (JArray cache_ex)])
   \<and> list_all hasValidId [mk_todo (Some (js ''m1'')) (Some (js ''m1'')) (js ''milk'') False]
   \<and> calculateStats [mk_todo (Some (js ''m1'')) (Some (js ''m1'')) (js ''milk'') False]
       = \<lparr>total = 1, completed_count = 0, pending = 1\<rparr>"
proof -
  have g: "getTodosFromStorage [STORAGE_KEY \<mapsto> JSONText (JArray cache_ex)] = JArray cache_ex"
    by (simp add: getTodosFromStorage_def)
  have c: "calculateStats [mk_todo (Some (js ''m1'')) (Some (js ''m1'')) (js ''milk'') False]
       = \<lparr>total = 1, completed_count = 0, pending = 1\<rparr>"
    by (simp add: calculateStats_def mk_todo_def)
  have l: "loadTodos env0 unreachableAPI (initial False, [STORAGE_KEY \<mapsto> JSONText (JArray cache_ex)])
     = (None,
        (initial False)\<lparr>todos := [mk_todo (Some (js ''m1'')) (Some (js ''m1'')) (js ''milk'') False],
                          stats := \<lparr>total = 1, completed_count = 0, pending = 1\<rparr>\<rparr>,
        [STORAGE_KEY \<mapsto> JSONText (JArray cache_ex)])"
    using loadTodos_offline_list [OF g array_props_cache_ex, of "initial False" env0 unreachableAPI]
    by (simp add: validTodos_cache_ex c initial_def)
  from loadTodos_valid_ids [OF l] have
    "list_all hasValidId [mk_todo (Some (js ''m1'')) (Some (js ''m1'')) (js ''milk'') False]"
    by (simp add: hasValidId_def)
  with l c show ?thesis by simp
qed

text \<open>
  Claim C3, as the code has it. Let the read of the storage give an array with no
  \<^verbatim>\<open>null\<close> element (a missing key, an empty text and a text that does not parse all
  read as the empty array). When the hook is online and the fetch fails, \<open>loadTodos\<close>
  takes the elements from the storage, normalises them with \<open>validTodos\<close> as the online
  branch does with the fetched list, sets the error to ``Using offline data. Some
  features may be limited.'' and does not throw. When the hook is offline it takes the
  elements from the storage and normalises them in the same way, does not throw, and
  leaves the error cleared: no message is set. The storage is not written.
\<close>

theorem loadTodos_falls_back_to_storage:
  assumes "getTodosFromStorage ls = JArray xs" "array_props xs = Inr cached"
  shows "(isOnline h \<longrightarrow> api_getAllTodos api = Inl err \<longrightarrow>
            loadTodos e api (h, ls) =
              (None, h\<lparr>todos := validTodos cached, stats := calculateStats (validTodos cached),
                       loading := False,
                       error := Some ''Using offline data. Some features may be limited.''\<rparr>, ls))
       \<and> (\<not> isOnline h \<longrightarrow>
            loadTodos e api (h, ls) =
              (None, h\<lparr>todos := validTodos cached, stats := calculateStats (validTodos cached),
                       loading := False, error := None\<rparr>, ls))
       \<and> (isOnline h \<longrightarrow> api_getAllTodos api = Inr (Some fetched) \<longrightarrow>
            todos (fst (snd (loadTodos e api (h, ls)))) = validTodos fetched)"
  using assms loadTodos_offline_list [of ls xs cached h e api]
    loadTodos_fetch_fails_list [of ls xs cached h api err e]
    loadTodos_online_success [of h api "Some fetched" e ls]
  by simp

theorem loadTodos_falls_back_to_storage_witness:
  "getTodosFromStorage [STORAGE_KEY \<mapsto> JSONText (JArray cache_ex)] = JArray cache_ex
   \<and> loadTodos env0 unreachableAPI (initial True, [STORAGE_KEY \<mapsto> JSONText (JArray cache_ex)]) =
       (None,
        (initial True)\<lparr>todos := [mk_todo (Some (js ''m1'')) (Some (js ''m1'')) (js ''milk'') False],
                         stats := \<lparr>total = 1, completed_count = 0, pending = 1\<rparr>,
                         error := Some ''Using offline data. Some features may be limited.''\<rparr>,
        [STORAGE_KEY \<mapsto> JSONText (JArray cache_ex)])
   \<and> loadTodos env0 unreachableAPI (initial False, [STORAGE_KEY \<mapsto> JSONText (JArray cache_ex)]) =
       (None,
        (initial False)\<lparr>todos := [mk_todo (Some (js ''m1'')) (Some (js ''m1'')) (js ''milk'') False],
                          stats := \<lparr>total = 1, completed_count = 0, pending = 1\<rparr>\<rparr>,
        [STORAGE_KEY \<mapsto> JSONText (JArray cache_ex)])"
proof -
  have g: "getTodosFromStorage [STORAGE_KEY \<mapsto> JSONText (JArray cache_ex)] = JArray cache_ex"
    by (simp add: getTodosFromStorage_def)
  have c: "calculateStats [mk_todo (Some (js ''m1'')) (Some (js ''m1'')) (js ''milk'') False]
       = \<lparr>total = 1, completed_count = 0, pending = 1\<rparr>"
    by (simp add: calculateStats_def mk_todo_def)
  have a: "api_getAllTodos unreachableAPI = Inl (Error ''Network Error: Unable to connect to server'')"
    by (simp add: unreachableAPI_def)
  show ?thesis
    using g
      loadTodos_falls_back_to_storage [OF g array_props_cache_ex, of "initial True" unreachableAPI
        "Error ''Network Error: Unable to connect to server''" env0]
      loadTodos_falls_back_to_storage [OF g array_props_cache_ex, of "initial False" unreachableAPI _ env0]
    by (simp add: a c validTodos_cache_ex initial_def)
qed

text \<open>
  Counterexample to C3 as stated: offline, over an empty storage, \<open>loadTodos\<close> returns
  with the error still \<open>None\<close>.
\<close>

theorem loadTodos_offline_no_error:
  "\<not> isOnline (initial False) \<and>
   loadTodos env0 unreachableAPI (initial False, Map.empty) = (None, initial False, Map.empty) \<and>
   error (fst (snd (loadTodos env0 unreachableAPI (initial False, Map.empty)))) = None \<and>
   error (fst (snd (loadTodos env0 unreachableAPI (initial False, Map.empty))))
     \<noteq> Some ''Using offline data. Some features may be limited.''"
  by (simp add: loadTodos_def loadTodos_try_def loadFromStorage_def setTodos_def initial_def
        validTodos_def todosWithId_def calculateStats_def)


section \<open>Adding\<close>

text \<open>
  Claim C4. When the trimmed text is empty, \<open>addTodo\<close> only sets the error message
  ``Todo text cannot be empty'': the list, the statistics and the storage stay as they
  were, online and offline alike.
\<close>

theorem addTodo_blank_text:
  assumes "trim t = []"
  shows "addTodo e api t (h, ls) = (h\<lparr>error := Some ''Todo text cannot be empty''\<rparr>, ls)
       \<and> todos (fst (addTodo e api t (h, ls))) = todos h
       \<and> stats (fst (addTodo e api t (h, ls))) = stats h
       \<and> snd (addTodo e api t (h, ls)) = ls"
  using assms by (simp add: addTodo_def)

theorem addTodo_blank_text_witness:
  "trim (js ''   '') = [] \<and>
   addTodo env0 unreachableAPI (js ''   '') (initial True, Map.empty)
     = ((initial True)\<lparr>error := Some ''Todo text cannot be empty''\<rparr>, Map.empty) \<and>
   addTodo env0 unreachableAPI [] (initial False, Map.empty)
     = ((initial False)\<lparr>error := Some ''Todo text cannot be empty''\<rparr>, Map.empty)"
proof -
  have 1: "trim (js ''   '') = []" by (simp add: trim_def js_def isWhiteSpace_def)
  have 2: "trim [] = []" by (simp add: trim_def)
  show ?thesis
    using 1 addTodo_blank_text [OF 1, of env0 unreachableAPI "initial True" Map.empty]
      addTodo_blank_text [OF 2, of env0 unreachableAPI "initial False" Map.empty]
    by simp
qed











section \<open>Updating\<close>











section \<open>Toggling\<close>





section \<open>Removing\<close>











section \<open>Removing the completed todos\<close>








end
